theory Spec2Isabelle
  imports Main Complex_Main
begin

section \<open>Data model of float8\_tensor.py\<close>

text \<open>
  The dtypes of torch that the two modules name or receive. The 8-bit formats are
  \<open>torch.float8_e4m3fn\<close> and \<open>torch.float8_e5m2\<close>.
\<close>

datatype dtype = float64 | float32 | float16 | bfloat16 | float8_e4m3fn | float8_e5m2

text \<open>Python exceptions, each with its message.\<close>

datatype error =
    AssertionError string
  | AttributeError string
  | IndexError string
  | KeyError string
  | NotImplementedError string
  | RuntimeError string

text \<open>
  \<open>ScaledMMConfig\<close> and \<open>LinearMMConfig\<close> are namedtuples; their equality is the
  fieldwise equality of tuples, which is the equality of records.
\<close>

record ScaledMMConfig =
  emulate :: bool
  use_fast_accum :: bool
  fp8_output :: bool
  pad_inner_dim :: bool

record LinearMMConfig =
  output' :: ScaledMMConfig
  grad_input :: ScaledMMConfig
  grad_weight :: ScaledMMConfig

text \<open>The defaults of the two namedtuples (\<open>defaults=[...]\<close>).\<close>

definition ScaledMMConfig_default :: ScaledMMConfig where
  "ScaledMMConfig_default =
     \<lparr>emulate = False, use_fast_accum = False, fp8_output = False, pad_inner_dim = False\<rparr>"

definition LinearMMConfig_default :: LinearMMConfig where
  "LinearMMConfig_default =
     \<lparr>output' = \<lparr>emulate = False, use_fast_accum = True, fp8_output = False, pad_inner_dim = False\<rparr>,
      grad_input = \<lparr>emulate = False, use_fast_accum = False, fp8_output = False, pad_inner_dim = False\<rparr>,
      grad_weight = \<lparr>emulate = False, use_fast_accum = False, fp8_output = False, pad_inner_dim = False\<rparr>\<rparr>"

text \<open>The enumeration \<open>GemmInputRole\<close>: its three members, and no other.\<close>

datatype GemmInputRole = INPUT | WEIGHT | GRAD_OUTPUT

text \<open>
  Tensors. A plain tensor has a dtype, a shape and its elements; the elements are reals
  here, and every arithmetic operation on them is an operation of torch, taken as a
  parameter below. A \<open>Float8Tensor\<close> holds \<open>_data\<close>, \<open>_scale\<close>, \<open>_orig_dtype\<close>,
  \<open>_linear_mm_config\<close> and \<open>_gemm_input_role\<close>; the metadata of the wrapper (size,
  strides, layout, device) is that of \<open>_data\<close> and is not stored twice. A \<open>DTensor\<close>
  holds its local tensor, its device mesh, its placements and its global size.
\<close>

datatype placement = Shard nat | Replicate | Partial

datatype tensor =
    Dense dtype "nat list" "real list"
  | Float8Tensor tensor tensor dtype LinearMMConfig "GemmInputRole option"
  | DTensor tensor "nat list" "placement list" "nat list"

fun size_of :: "tensor \<Rightarrow> nat list" where
  "size_of (Dense dt sh xs) = sh"
| "size_of (Float8Tensor d s od c r) = size_of d"
| "size_of (DTensor l m p sz) = sz"

definition numel :: "tensor \<Rightarrow> nat" where
  "numel t = prod_list (size_of t)"

fun dtype_of :: "tensor \<Rightarrow> dtype" where
  "dtype_of (Dense dt sh xs) = dt"
| "dtype_of (Float8Tensor d s od c r) = od"
| "dtype_of (DTensor l m p sz) = dtype_of l"

fun is_Float8Tensor :: "tensor \<Rightarrow> bool" where
  "is_Float8Tensor (Float8Tensor d s od c r) = True"
| "is_Float8Tensor t = False"


subsection \<open>Text of the diagnostics\<close>

fun str_nat :: "nat \<Rightarrow> string" where
  "str_nat n =
     (if n < 10 then [''0123456789'' ! n]
      else str_nat (n div 10) @ [''0123456789'' ! (n mod 10)])"

declare str_nat.simps [simp del]

definition repr_bool :: "bool \<Rightarrow> string" where
  "repr_bool b = (if b then ''True'' else ''False'')"

definition repr_ScaledMMConfig :: "ScaledMMConfig \<Rightarrow> string" where
  "repr_ScaledMMConfig c =
     ''ScaledMMConfig(emulate='' @ repr_bool (emulate c) @
     '', use_fast_accum='' @ repr_bool (use_fast_accum c) @
     '', fp8_output='' @ repr_bool (fp8_output c) @
     '', pad_inner_dim='' @ repr_bool (pad_inner_dim c) @ '')''"

fun str_GemmInputRole :: "GemmInputRole \<Rightarrow> string" where
  "str_GemmInputRole INPUT = ''GemmInputRole.INPUT''"
| "str_GemmInputRole WEIGHT = ''GemmInputRole.WEIGHT''"
| "str_GemmInputRole GRAD_OUTPUT = ''GemmInputRole.GRAD_OUTPUT''"

definition mismatch_message :: "string \<Rightarrow> ScaledMMConfig \<Rightarrow> ScaledMMConfig \<Rightarrow> string" where
  "mismatch_message gemm a b =
     ''linear_mm_config.'' @ gemm @ '' mismatch: '' @
     repr_ScaledMMConfig a @ '' vs '' @ repr_ScaledMMConfig b"

definition unexpected_roles_message :: "GemmInputRole \<Rightarrow> GemmInputRole \<Rightarrow> string" where
  "unexpected_roles_message a_role b_role =
     ''unexpected a_role '' @ str_GemmInputRole a_role @
     '' and b_role '' @ str_GemmInputRole b_role"

definition scale_numel_message :: "nat \<Rightarrow> string" where
  "scale_numel_message n =
     ''Scale should contain a single value, but got: '' @ str_nat n @ '' elements''"

section \<open>choose\_scaled\_mm\_config\<close>

definition choose_scaled_mm_config ::
  "GemmInputRole \<Rightarrow> LinearMMConfig \<Rightarrow> GemmInputRole \<Rightarrow> LinearMMConfig \<Rightarrow> error + ScaledMMConfig"
where
  "choose_scaled_mm_config a_role a_linear_mm_config b_role b_linear_mm_config =
     (if a_role = INPUT \<and> b_role = WEIGHT then
        (if output' a_linear_mm_config = output' b_linear_mm_config
         then Inr (output' a_linear_mm_config)
         else Inl (AssertionError (mismatch_message ''output''
                (output' a_linear_mm_config) (output' b_linear_mm_config))))
      else if a_role = GRAD_OUTPUT \<and> b_role = WEIGHT then
        (if grad_input a_linear_mm_config = grad_input b_linear_mm_config
         then Inr (grad_input a_linear_mm_config)
         else Inl (AssertionError (mismatch_message ''grad_input''
                (grad_input a_linear_mm_config) (grad_input b_linear_mm_config))))
      else if a_role = GRAD_OUTPUT \<and> b_role = INPUT then
        (if grad_weight a_linear_mm_config = grad_weight b_linear_mm_config
         then Inr (grad_weight a_linear_mm_config)
         else Inl (AssertionError (mismatch_message ''grad_weight''
                (grad_weight a_linear_mm_config) (grad_weight b_linear_mm_config))))
      else Inl (AssertionError (unexpected_roles_message a_role b_role)))"

section \<open>Float8Tensor\<close>

text \<open>
  \<open>Float8Tensor.__new__\<close>: the assertion on the scale, then the wrapper with its five
  fields; a missing \<open>linear_mm_config\<close> becomes the default \<open>LinearMMConfig()\<close>.
\<close>

definition Float8Tensor_new ::
  "tensor \<Rightarrow> tensor \<Rightarrow> dtype \<Rightarrow> LinearMMConfig option \<Rightarrow> GemmInputRole option \<Rightarrow> error + tensor"
where
  "Float8Tensor_new data scale orig_dtype linear_mm_config gemm_input_role =
     (if numel scale \<noteq> 1 then Inl (AssertionError (scale_numel_message (numel scale)))
      else Inr (Float8Tensor data scale orig_dtype
             (case linear_mm_config of Some c \<Rightarrow> c | None \<Rightarrow> LinearMMConfig_default)
             gemm_input_role))"

text \<open>
  \<open>__tensor_flatten__\<close> gives the names of the two inner tensors and a dictionary of the
  three other fields; \<open>__tensor_unflatten__\<close> builds the tensor again from a dictionary of
  inner tensors (an association list with distinct keys) and that metadata.
\<close>

record flatten_metadata =
  md_orig_dtype :: dtype
  md_linear_mm_config :: LinearMMConfig
  md_gemm_input_role :: "GemmInputRole option"

fun tensor_flatten :: "tensor \<Rightarrow> error + (string list \<times> flatten_metadata)" where
  "tensor_flatten (Float8Tensor d s od c r) =
     Inr ([''_data'', ''_scale''],
          \<lparr>md_orig_dtype = od, md_linear_mm_config = c, md_gemm_input_role = r\<rparr>)"
| "tensor_flatten t = Inl (AttributeError ''_orig_dtype'')"

definition tensor_unflatten :: "(string \<times> tensor) list \<Rightarrow> flatten_metadata \<Rightarrow> error + tensor" where
  "tensor_unflatten inner_tensors metadata =
     (if length inner_tensors \<noteq> 2 then Inl (AssertionError [])
      else case map_of inner_tensors ''_data'' of
        None \<Rightarrow> Inl (KeyError ''_data'')
      | Some d \<Rightarrow>
          (case map_of inner_tensors ''_scale'' of
             None \<Rightarrow> Inl (KeyError ''_scale'')
           | Some s \<Rightarrow>
               Float8Tensor_new d s (md_orig_dtype metadata)
                 (Some (md_linear_mm_config metadata)) (md_gemm_input_role metadata)))"

subsection \<open>External operations\<close>

text \<open>
  The operations that the two modules call and do not define are parameters of the
  model, collected in one record:
  \<^item> of torch: the elementwise product \<open>a * b\<close>, the quotient \<open>a / b\<close>, the sum
    \<open>a + b\<close>, the conversion \<open>t.to(dtype)\<close>, \<open>torch.matmul\<close>, \<open>t.t()\<close>, and the
    global switches \<open>torch.is_grad_enabled()\<close>, \<open>torch.is_autocast_enabled()\<close> and
    \<open>torch.get_autocast_gpu_dtype()\<close>;
  \<^item> of float8\_utils: \<open>to_fp8_saturated\<close>, \<open>tensor_to_amax\<close> (its second argument
    is \<open>reduce_amax\<close>, \<open>None\<close> where the caller leaves it out) and
    \<open>amax_history_to_scale\<close>;
  \<^item> of float8\_dynamic\_utils: \<open>cast_to_float8_e4m3_dynamic\<close> (its last argument is
    \<open>gemm_input_role\<close>, \<open>None\<close> where the caller leaves it out) and
    \<open>cast_to_float8_e5m2_dynamic_bw\<close>.
  An operation that may raise returns a sum.
\<close>

type_synonym store = "string \<rightharpoonup> tensor"

record externals =
  tensor_mul :: "tensor \<Rightarrow> tensor \<Rightarrow> tensor"
  tensor_div :: "tensor \<Rightarrow> tensor \<Rightarrow> tensor"
  tensor_to :: "tensor \<Rightarrow> dtype \<Rightarrow> tensor"
  tensor_add :: "tensor \<Rightarrow> tensor \<Rightarrow> error + tensor"
  tensor_t :: "tensor \<Rightarrow> error + tensor"
  matmul :: "tensor \<Rightarrow> tensor \<Rightarrow> error + tensor"
  is_grad_enabled :: bool
  is_autocast_enabled :: bool
  get_autocast_gpu_dtype :: dtype
  to_fp8_saturated :: "tensor \<Rightarrow> dtype \<Rightarrow> tensor"
  tensor_to_amax :: "tensor \<Rightarrow> bool option \<Rightarrow> real"
  amax_history_to_scale :: "tensor \<Rightarrow> dtype \<Rightarrow> dtype \<Rightarrow> string \<Rightarrow> error + real"
  cast_to_float8_e4m3_dynamic ::
    "tensor \<Rightarrow> LinearMMConfig \<Rightarrow> GemmInputRole option \<Rightarrow> error + tensor"
  cast_to_float8_e5m2_dynamic_bw :: "tensor \<Rightarrow> LinearMMConfig \<Rightarrow> error + tensor"

subsection \<open>\_ToFloat8ConstrFunc and hp\_tensor\_and\_scale\_to\_float8\<close>

definition ToFloat8ConstrFunc_forward ::
  "externals \<Rightarrow> tensor \<Rightarrow> tensor \<Rightarrow> dtype \<Rightarrow> LinearMMConfig option \<Rightarrow> GemmInputRole option
     \<Rightarrow> error + tensor"
where
  "ToFloat8ConstrFunc_forward ext tensor scale float8_dtype linear_mm_config gemm_input_role =
     (let tensor_scaled = tensor_mul ext tensor scale;
          bits_fp8 = to_fp8_saturated ext tensor_scaled float8_dtype
      in case bits_fp8 of
           DTensor local_bits bits_mesh bits_placements bits_size \<Rightarrow>
             (case scale of
                DTensor local_scale scale_mesh scale_placements scale_size \<Rightarrow>
                  (case Float8Tensor_new local_bits local_scale (dtype_of tensor)
                          linear_mm_config gemm_input_role of
                     Inl e \<Rightarrow> Inl e
                   | Inr inner_float8_tensor \<Rightarrow>
                       Inr (DTensor inner_float8_tensor bits_mesh bits_placements bits_size))
              | _ \<Rightarrow> Inl (AssertionError
                    ''Expected Float8 scale to be a DTensor if bits_fp8 is a DTensor''))
         | _ \<Rightarrow> Float8Tensor_new bits_fp8 scale (dtype_of tensor)
                  linear_mm_config gemm_input_role)"


definition hp_tensor_and_scale_to_float8 ::
  "externals \<Rightarrow> tensor \<Rightarrow> tensor \<Rightarrow> dtype \<Rightarrow> LinearMMConfig option \<Rightarrow> GemmInputRole option
     \<Rightarrow> error + tensor"
where
  "hp_tensor_and_scale_to_float8 ext hp_tensor s float8_dtype linear_mm_config gemm_input_role =
     ToFloat8ConstrFunc_forward ext hp_tensor s float8_dtype linear_mm_config gemm_input_role"

subsection \<open>\_FromFloat8ConstrFunc and to\_original\_precision\<close>

fun FromFloat8ConstrFunc_forward :: "externals \<Rightarrow> tensor \<Rightarrow> error + tensor" where
  "FromFloat8ConstrFunc_forward ext (Float8Tensor d s od c r) =
     Inr (tensor_div ext (tensor_to ext d od) (tensor_to ext s od))"
| "FromFloat8ConstrFunc_forward ext t = Inl (AttributeError ''_data'')"

definition FromFloat8ConstrFunc_backward :: "tensor \<Rightarrow> tensor option list" where
  "FromFloat8ConstrFunc_backward g = [Some g, None, None]"

definition to_original_precision :: "externals \<Rightarrow> tensor \<Rightarrow> error + tensor" where
  "to_original_precision ext self = FromFloat8ConstrFunc_forward ext self"

section \<open>float8\_linear.py\<close>

subsection \<open>Configuration\<close>

text \<open>
  Modelled from the spec: \<open>TensorScalingType\<close> and \<open>Float8LinearConfig\<close> are declared
  in config.py, which is not among the sources; the scaling type of a role is one of
  DYNAMIC and DELAYED, and the record holds the fields that float8\_linear.py reads.
  Some fields carry a prime, because the layer or \<open>ScaledMMConfig\<close> has a field of
  the same name, or a function a parameter of that name.
\<close>

datatype TensorScalingType = DELAYED | DYNAMIC

record CastConfig =
  scaling_type :: TensorScalingType

record Float8GemmConfig =
  use_fast_accum' :: bool

record DelayedScalingConfig =
  history_len :: nat
  scale_fn_name' :: string

record Float8LinearConfig =
  cast_config_input :: CastConfig
  cast_config_weight :: CastConfig
  cast_config_grad_output :: CastConfig
  gemm_config_output :: Float8GemmConfig
  gemm_config_grad_input :: Float8GemmConfig
  gemm_config_grad_weight :: Float8GemmConfig
  enable_fsdp_float8_all_gather :: bool
  pad_inner_dim' :: bool
  emulate' :: bool
  enable_amax_init :: bool
  enable_pre_and_post_forward' :: bool
  delayed_scaling_config :: DelayedScalingConfig

text \<open>
  Modelled from the spec: \<open>e4m3_dtype\<close> and \<open>e5m2_dtype\<close> are declared in
  float8\_utils, which is not among the sources; they are the e4m3 and the e5m2 format.
\<close>

definition e4m3_dtype :: dtype where
  "e4m3_dtype = float8_e4m3fn"

definition e5m2_dtype :: dtype where
  "e5m2_dtype = float8_e5m2"

text \<open>\<open>torch.finfo(dtype).max\<close>, the largest finite value of a floating-point format.\<close>

fun finfo_max :: "dtype \<Rightarrow> real" where
  "finfo_max float8_e4m3fn = 448"
| "finfo_max float8_e5m2 = 57344"
| "finfo_max float16 = 65504"
| "finfo_max bfloat16 = (2 - 1 / 2 ^ 7) * 2 ^ 127"
| "finfo_max float32 = (2 - 1 / 2 ^ 23) * 2 ^ 127"
| "finfo_max float64 = (2 - 1 / 2 ^ 52) * 2 ^ 1023"

subsection \<open>In-place operations on buffers\<close>

text \<open>
  A buffer is held by reference: the layer's \<open>_buffers\<close> is a store from names to
  tensors, and a function that receives a buffer receives its name. \<open>t.fill_(v)\<close> and
  \<open>t.copy_(v)\<close> with a scalar \<open>v\<close> overwrite every element; \<open>t[0] = v\<close> overwrites the
  first slice along dimension 0 and raises \<open>IndexError\<close> when there is none.
\<close>

fun fill_inplace :: "real \<Rightarrow> tensor \<Rightarrow> error + tensor" where
  "fill_inplace v (Dense dt sh xs) = Inr (Dense dt sh (map (\<lambda>x. v) xs))"
| "fill_inplace v (DTensor l m p sz) =
     (case fill_inplace v l of Inl e \<Rightarrow> Inl e | Inr l' \<Rightarrow> Inr (DTensor l' m p sz))"
| "fill_inplace v (Float8Tensor d s od c r) = Inl (NotImplementedError ''aten.fill_'')"

fun setitem0 :: "real \<Rightarrow> tensor \<Rightarrow> error + tensor" where
  "setitem0 v (Dense dt [] xs) = Inl (IndexError ''too many indices for tensor of dimension 0'')"
| "setitem0 v (Dense dt (n # rest) xs) =
     (if n = 0 then Inl (IndexError ''index 0 is out of bounds for dimension 0 with size 0'')
      else Inr (Dense dt (n # rest)
             (replicate (min (prod_list rest) (length xs)) v @ drop (prod_list rest) xs)))"
| "setitem0 v (DTensor l m p sz) =
     (case setitem0 v l of Inl e \<Rightarrow> Inl e | Inr l' \<Rightarrow> Inr (DTensor l' m p sz))"
| "setitem0 v (Float8Tensor d s od c r) = Inl (NotImplementedError ''aten.select'')"

definition update_buffer ::
  "store \<Rightarrow> string \<Rightarrow> (tensor \<Rightarrow> error + tensor) \<Rightarrow> store \<times> (error + unit)"
where
  "update_buffer st r f =
     (case st r of
        None \<Rightarrow> (st, Inl (AttributeError r))
      | Some t \<Rightarrow>
          (case f t of
             Inl e \<Rightarrow> (st, Inl e)
           | Inr t' \<Rightarrow> (st(r \<mapsto> t'), Inr ())))"

text \<open>
  Reading the attributes \<open>self.NAME\<close> of a module in order: the first name that is not
  a registered buffer raises \<open>AttributeError\<close>.
\<close>

fun getattr_buffers :: "store \<Rightarrow> string list \<Rightarrow> error + unit" where
  "getattr_buffers st [] = Inr ()"
| "getattr_buffers st (name # names) =
     (case st name of
        None \<Rightarrow> Inl (AttributeError name)
      | Some t \<Rightarrow> getattr_buffers st names)"

subsection \<open>Names that float8\_linear.py takes from float8\_tensor.py\<close>

text \<open>
  float8\_linear.py uses five names of float8\_tensor.py that the float8\_tensor.py among
  the sources does not declare: the members \<open>X\<close>, \<open>W\<close> and \<open>DL_DY\<close> of
  \<open>GemmInputRole\<close>, the function \<open>to_fp8_no_autograd\<close> and the static method
  \<open>Float8Tensor.to_float8\<close>. All five are modelled from the spec, in the same way.
\<close>

text \<open>
  Modelled from the spec: the members \<open>X\<close>, \<open>W\<close> and \<open>DL_DY\<close> of \<open>GemmInputRole\<close> are
  missing. The spec has three roles, INPUT, WEIGHT and GRAD\_OUTPUT, and tags the cast
  of the input, of the weight and of the gradient of the output with them.
\<close>

definition GemmInputRole_X :: GemmInputRole where
  "GemmInputRole_X = INPUT"

definition GemmInputRole_W :: GemmInputRole where
  "GemmInputRole_W = WEIGHT"

definition GemmInputRole_DL_DY :: GemmInputRole where
  "GemmInputRole_DL_DY = GRAD_OUTPUT"

text \<open>
  Modelled from the spec: \<open>to_fp8_no_autograd\<close> is missing. It is the spec's
  \<open>makeLowPrecision(highPrecisionTensor, scale, targetFormat, role, mmConfig)\<close>: it
  multiplies the tensor by the scale, quantizes the product with saturation, and
  returns the tagged tensor, which carries the dtype of the tensor as \<open>orig_dtype\<close>; the
  scale has exactly one element.
\<close>

definition to_fp8_no_autograd ::
  "externals \<Rightarrow> tensor \<Rightarrow> tensor \<Rightarrow> dtype \<Rightarrow> LinearMMConfig \<Rightarrow> GemmInputRole \<Rightarrow> error + tensor"
where
  "to_fp8_no_autograd ext x x_scale float8_dtype linear_mm_config gemm_input_role =
     Float8Tensor_new (to_fp8_saturated ext (tensor_mul ext x x_scale) float8_dtype) x_scale
       (dtype_of x) (Some linear_mm_config) (Some gemm_input_role)"

text \<open>
  Modelled from the spec: \<open>Float8Tensor.to_float8\<close> is missing. Under delayed scaling
  the cast of the input and of the weight is the spec's Operation A against the state
  of the role: on every forward pass the amax of the tensor is recorded into
  \<open>current_amax\<close> before the cast, and the cast is \<open>makeLowPrecision\<close> with the scale
  of the state. The call passes the scale buffer second and the amax buffer fourth, both
  by reference.
\<close>

definition to_float8 ::
  "externals \<Rightarrow> tensor \<Rightarrow> string \<Rightarrow> dtype \<Rightarrow> string \<Rightarrow> LinearMMConfig \<Rightarrow> GemmInputRole
     \<Rightarrow> store \<Rightarrow> store \<times> (error + tensor)"
where
  "to_float8 ext tensor scale float8_dtype amax_buffer linear_mm_config gemm_input_role st =
     (case update_buffer st amax_buffer (fill_inplace (tensor_to_amax ext tensor None)) of
        (st1, Inl e) \<Rightarrow> (st1, Inl e)
      | (st1, Inr u) \<Rightarrow>
          (case st1 scale of
             None \<Rightarrow> (st1, Inl (AttributeError scale))
           | Some s \<Rightarrow>
               (st1, to_fp8_no_autograd ext tensor s float8_dtype linear_mm_config
                       gemm_input_role)))"

subsection \<open>\_maybe\_initialize\_amaxes\_scales\_for\_float8\_cast\<close>

definition maybe_initialize_amaxes_scales_for_float8_cast ::
  "externals \<Rightarrow> tensor \<Rightarrow> string \<Rightarrow> string \<Rightarrow> string \<Rightarrow> string \<Rightarrow> dtype \<Rightarrow> bool \<Rightarrow> bool
     \<Rightarrow> store \<Rightarrow> store \<times> (error + unit)"
where
  "maybe_initialize_amaxes_scales_for_float8_cast ext x cur_amax amax_history scale
       scale_fn_name float8_dtype is_initialized reduce_amax st =
     (if is_initialized then (st, Inr ())
      else
        let new_amax = tensor_to_amax ext x (Some reduce_amax) in
        case update_buffer st cur_amax (fill_inplace new_amax) of
          (st1, Inl e) \<Rightarrow> (st1, Inl e)
        | (st1, Inr u1) \<Rightarrow>
            (case update_buffer st1 amax_history (setitem0 new_amax) of
               (st2, Inl e) \<Rightarrow> (st2, Inl e)
             | (st2, Inr u2) \<Rightarrow>
                 (case st2 amax_history of
                    None \<Rightarrow> (st2, Inl (AttributeError amax_history))
                  | Some h \<Rightarrow>
                      (case amax_history_to_scale ext h float8_dtype (dtype_of x)
                              scale_fn_name of
                         Inl e \<Rightarrow> (st2, Inl e)
                       | Inr new_scale \<Rightarrow>
                           update_buffer st2 scale (fill_inplace new_scale)))))"

subsection \<open>NoopFwToFloat8E5M2Bw\<close>

text \<open>
  The context that \<open>forward\<close> fills and \<open>backward\<close> reads: the three saved buffers (by
  reference) and the three attributes set on \<open>ctx\<close>.
\<close>

record noop_ctx =
  ctx_saved_tensors :: "string \<times> string \<times> string"
  ctx_scale_fn_name :: string
  ctx_is_amax_initialized :: bool
  ctx_linear_mm_config :: LinearMMConfig

definition NoopFwToFloat8E5M2Bw_forward ::
  "tensor \<Rightarrow> string \<Rightarrow> string \<Rightarrow> string \<Rightarrow> string \<Rightarrow> bool \<Rightarrow> LinearMMConfig
     \<Rightarrow> noop_ctx \<times> tensor"
where
  "NoopFwToFloat8E5M2Bw_forward tensor fp8_amax_grad_output fp8_amax_history_grad_output
       fp8_scale_grad_output scale_fn_name is_amax_initialized linear_mm_config =
     (\<lparr>ctx_saved_tensors =
          (fp8_amax_grad_output, fp8_amax_history_grad_output, fp8_scale_grad_output),
       ctx_scale_fn_name = scale_fn_name,
       ctx_is_amax_initialized = is_amax_initialized,
       ctx_linear_mm_config = linear_mm_config\<rparr>,
      tensor)"

text \<open>
  \<open>backward\<close> returns the tuple \<open>res, None, None, None, None, None, None\<close>, one entry
  for each input of \<open>forward\<close>.
\<close>

definition NoopFwToFloat8E5M2Bw_backward ::
  "externals \<Rightarrow> noop_ctx \<Rightarrow> tensor \<Rightarrow> store \<Rightarrow> store \<times> (error + tensor option list)"
where
  "NoopFwToFloat8E5M2Bw_backward ext ctx go st =
     (case ctx_saved_tensors ctx of
        (fp8_amax_grad_output, fp8_amax_history_grad_output, fp8_scale_grad_output) \<Rightarrow>
          (case maybe_initialize_amaxes_scales_for_float8_cast ext go
                  fp8_amax_grad_output fp8_amax_history_grad_output fp8_scale_grad_output
                  (ctx_scale_fn_name ctx) e5m2_dtype (ctx_is_amax_initialized ctx) True st of
             (st1, Inl e) \<Rightarrow> (st1, Inl e)
           | (st1, Inr u1) \<Rightarrow>
               (case update_buffer st1 fp8_amax_grad_output
                       (fill_inplace (tensor_to_amax ext go None)) of
                  (st2, Inl e) \<Rightarrow> (st2, Inl e)
                | (st2, Inr u2) \<Rightarrow>
                    (case st2 fp8_scale_grad_output of
                       None \<Rightarrow> (st2, Inl (AttributeError fp8_scale_grad_output))
                     | Some scale_tensor \<Rightarrow>
                         (case to_fp8_no_autograd ext go scale_tensor e5m2_dtype
                                 (ctx_linear_mm_config ctx) GemmInputRole_DL_DY of
                            Inl e \<Rightarrow> (st2, Inl e)
                          | Inr res \<Rightarrow>
                              (st2, Inr [Some res, None, None, None, None, None, None]))))))"

subsection \<open>Float8Linear: construction\<close>

text \<open>
  The attributes of a \<open>Float8Linear\<close> module. \<open>weight\<close> and \<open>bias\<close> are those of
  \<open>torch.nn.Linear\<close>; \<open>buffers\<close> is the module's \<open>_buffers\<close>.
\<close>

record Float8Linear =
  weight :: tensor
  bias :: "tensor option"
  config :: Float8LinearConfig
  always_float32_buffers :: "string set"
  buffers :: store
  scaling_type_input :: TensorScalingType
  scaling_type_weight :: TensorScalingType
  scaling_type_grad_output :: TensorScalingType
  has_any_delayed_scaling :: bool
  linear_mm_config :: LinearMMConfig
  is_amax_initialized :: bool
  amax_and_scale_synced :: bool
  last_seen_input_dtype :: "dtype option"
  enable_pre_and_post_forward :: bool

definition register_always_float32_buffer ::
  "Float8Linear \<Rightarrow> string \<Rightarrow> tensor \<Rightarrow> Float8Linear"
where
  "register_always_float32_buffer self name t =
     self\<lparr>buffers := (buffers self)(name \<mapsto> t),
          always_float32_buffers := insert name (always_float32_buffers self)\<rparr>"

text \<open>
  \<open>torch.tensor([v])\<close> is a tensor of one element and \<open>torch.zeros(n)\<close> one of \<open>n\<close>
  zeros, both of the default dtype float32. \<open>create_buffers\<close> registers its nine
  buffers in the order of the source.
\<close>

definition create_buffers :: "Float8Linear \<Rightarrow> Float8Linear" where
  "create_buffers self =
     (let history_len = history_len (delayed_scaling_config (config self));
          default_input = finfo_max float8_e4m3fn;
          default_weight = finfo_max float8_e4m3fn;
          default_grad_output = finfo_max float8_e5m2
      in if has_any_delayed_scaling self then
           foldl (\<lambda>m (name, t). register_always_float32_buffer m name t) self
             [(''fp8_amax_input'', Dense float32 [1] [default_input]),
              (''fp8_amax_history_input'', Dense float32 [history_len] (replicate history_len 0)),
              (''fp8_scale_input'', Dense float32 [1] [1]),
              (''fp8_amax_weight'', Dense float32 [1] [default_weight]),
              (''fp8_amax_history_weight'', Dense float32 [history_len] (replicate history_len 0)),
              (''fp8_scale_weight'', Dense float32 [1] [1]),
              (''fp8_amax_grad_output'', Dense float32 [1] [default_grad_output]),
              (''fp8_amax_history_grad_output'',
                 Dense float32 [history_len] (replicate history_len 0)),
              (''fp8_scale_grad_output'', Dense float32 [1] [1])]
         else self)"

text \<open>
  \<open>Float8Linear.__init__\<close>. The weight and the bias come from
  \<open>torch.nn.Linear.__init__\<close> and are arguments here. \<open>create_buffers\<close> reads the
  configuration and \<open>has_any_delayed_scaling\<close> only, so the attributes that the source
  sets after it are set in the same record.
\<close>

definition Float8Linear_init :: "Float8LinearConfig \<Rightarrow> tensor \<Rightarrow> tensor option \<Rightarrow> Float8Linear" where
  "Float8Linear_init cfg w b =
     create_buffers
       \<lparr>weight = w,
        bias = b,
        config = cfg,
        always_float32_buffers = {},
        buffers = Map.empty,
        scaling_type_input = scaling_type (cast_config_input cfg),
        scaling_type_weight = scaling_type (cast_config_weight cfg),
        scaling_type_grad_output = scaling_type (cast_config_grad_output cfg),
        has_any_delayed_scaling =
          (scaling_type (cast_config_input cfg) = DELAYED
           \<or> scaling_type (cast_config_weight cfg) = DELAYED
           \<or> scaling_type (cast_config_grad_output cfg) = DELAYED),
        linear_mm_config =
          \<lparr>output' = \<lparr>emulate = emulate' cfg,
                       use_fast_accum = use_fast_accum' (gemm_config_output cfg),
                       fp8_output = False, pad_inner_dim = pad_inner_dim' cfg\<rparr>,
           grad_input = \<lparr>emulate = emulate' cfg,
                       use_fast_accum = use_fast_accum' (gemm_config_grad_input cfg),
                       fp8_output = False, pad_inner_dim = pad_inner_dim' cfg\<rparr>,
           grad_weight = \<lparr>emulate = emulate' cfg,
                       use_fast_accum = use_fast_accum' (gemm_config_grad_weight cfg),
                       fp8_output = False, pad_inner_dim = pad_inner_dim' cfg\<rparr>\<rparr>,
        is_amax_initialized = (\<not> enable_amax_init cfg),
        amax_and_scale_synced = (\<not> enable_amax_init cfg),
        last_seen_input_dtype = None,
        enable_pre_and_post_forward = enable_pre_and_post_forward' cfg\<rparr>"

subsection \<open>Float8Linear: the three casts\<close>

text \<open>
  Each cast returns the layer, whose buffers it may have changed, and the result or the
  exception. The arguments of a call are evaluated in order before the call, so a buffer
  attribute that is not registered raises before the callee runs.
\<close>

definition cast_x_to_float8 ::
  "externals \<Rightarrow> Float8Linear \<Rightarrow> tensor \<Rightarrow> bool \<Rightarrow> Float8Linear \<times> (error + tensor)"
where
  "cast_x_to_float8 ext self x0 is_amax_initialized' =
     (let x = (if is_autocast_enabled ext then tensor_to ext x0 (get_autocast_gpu_dtype ext)
               else x0)
      in if scaling_type_input self = DELAYED then
           (let scale_fn_name = scale_fn_name' (delayed_scaling_config (config self)) in
            case getattr_buffers (buffers self)
                   [''fp8_amax_input'', ''fp8_amax_history_input'', ''fp8_scale_input''] of
              Inl e \<Rightarrow> (self, Inl e)
            | Inr u0 \<Rightarrow>
                (case maybe_initialize_amaxes_scales_for_float8_cast ext x
                        ''fp8_amax_input'' ''fp8_amax_history_input'' ''fp8_scale_input''
                        scale_fn_name e4m3_dtype is_amax_initialized' True (buffers self) of
                   (st1, Inl e) \<Rightarrow> (self\<lparr>buffers := st1\<rparr>, Inl e)
                 | (st1, Inr u1) \<Rightarrow>
                     (case to_float8 ext x ''fp8_scale_input'' e4m3_dtype ''fp8_amax_input''
                             (linear_mm_config self) GemmInputRole_X st1 of
                        (st2, res) \<Rightarrow> (self\<lparr>buffers := st2\<rparr>, res))))
         else (self, cast_to_float8_e4m3_dynamic ext x (linear_mm_config self) None))"

definition cast_w_to_float8 ::
  "externals \<Rightarrow> Float8Linear \<Rightarrow> tensor \<Rightarrow> bool \<Rightarrow> Float8Linear \<times> (error + tensor)"
where
  "cast_w_to_float8 ext self w is_amax_initialized' =
     (if scaling_type_weight self = DELAYED then
        (if is_Float8Tensor (weight self) then (self, Inr (weight self))
         else
           (let scale_fn_name = scale_fn_name' (delayed_scaling_config (config self)) in
            case getattr_buffers (buffers self)
                   [''fp8_amax_weight'', ''fp8_amax_history_weight'', ''fp8_scale_weight''] of
              Inl e \<Rightarrow> (self, Inl e)
            | Inr u0 \<Rightarrow>
                (case maybe_initialize_amaxes_scales_for_float8_cast ext w
                        ''fp8_amax_weight'' ''fp8_amax_history_weight'' ''fp8_scale_weight''
                        scale_fn_name e4m3_dtype is_amax_initialized' False (buffers self) of
                   (st1, Inl e) \<Rightarrow> (self\<lparr>buffers := st1\<rparr>, Inl e)
                 | (st1, Inr u1) \<Rightarrow>
                     (case to_float8 ext w ''fp8_scale_weight'' e4m3_dtype ''fp8_amax_weight''
                             (linear_mm_config self) GemmInputRole_W st1 of
                        (st2, res) \<Rightarrow> (self\<lparr>buffers := st2\<rparr>, res)))))
      else
        (if is_Float8Tensor (weight self) then (self, Inr (weight self))
         else
           (self, cast_to_float8_e4m3_dynamic ext (weight self) (linear_mm_config self)
                    (Some GemmInputRole_W))))"

text \<open>
  \<open>cast_y_to_float8_in_bw\<close> returns the tensor and, under delayed scaling, the context
  that \<open>NoopFwToFloat8E5M2Bw.apply\<close> leaves for the backward pass.
\<close>

definition cast_y_to_float8_in_bw ::
  "externals \<Rightarrow> Float8Linear \<Rightarrow> tensor \<Rightarrow> error + (tensor \<times> noop_ctx option)"
where
  "cast_y_to_float8_in_bw ext self y =
     (if scaling_type_grad_output self = DELAYED then
        (let scale_fn_name = scale_fn_name' (delayed_scaling_config (config self)) in
         case getattr_buffers (buffers self)
                [''fp8_amax_grad_output'', ''fp8_amax_history_grad_output'',
                 ''fp8_scale_grad_output''] of
           Inl e \<Rightarrow> Inl e
         | Inr u0 \<Rightarrow>
             (case NoopFwToFloat8E5M2Bw_forward y
                     ''fp8_amax_grad_output'' ''fp8_amax_history_grad_output''
                     ''fp8_scale_grad_output'' scale_fn_name (is_amax_initialized self)
                     (linear_mm_config self) of
                (ctx, y') \<Rightarrow> Inr (y', Some ctx)))
      else
        (case cast_to_float8_e5m2_dynamic_bw ext y (linear_mm_config self) of
           Inl e \<Rightarrow> Inl e
         | Inr y' \<Rightarrow> Inr (y', None)))"

subsection \<open>Float8Linear: forward\<close>

definition not_synced_message :: string where
  "not_synced_message =
     ''amaxes and scales not synced, please call `sync_float8_amax_and_scale_history` before forward''"

definition float8_pre_forward ::
  "externals \<Rightarrow> Float8Linear \<Rightarrow> tensor \<Rightarrow> Float8Linear \<times> (error + unit)"
where
  "float8_pre_forward ext self x =
     (if \<not> enable_pre_and_post_forward self then (self, Inr ())
      else if is_amax_initialized self \<and> \<not> amax_and_scale_synced self \<and> is_grad_enabled ext
      then (self, Inl (AssertionError not_synced_message))
      else (self\<lparr>last_seen_input_dtype := Some (dtype_of x)\<rparr>, Inr ()))"

definition float8_post_forward :: "Float8Linear \<Rightarrow> Float8Linear" where
  "float8_post_forward self =
     (if \<not> enable_pre_and_post_forward self then self
      else self\<lparr>is_amax_initialized := True, amax_and_scale_synced := False\<rparr>)"

text \<open>
  The part of \<open>forward\<close> between the two hooks: the casts, the product, the cast of the
  output for the backward pass and the bias.
\<close>

definition forward_compute ::
  "externals \<Rightarrow> Float8Linear \<Rightarrow> tensor \<Rightarrow> Float8Linear \<times> (error + tensor)"
where
  "forward_compute ext self0 input =
     (case cast_x_to_float8 ext self0 input (is_amax_initialized self0) of
        (self1, Inl e) \<Rightarrow> (self1, Inl e)
      | (self1, Inr x_fp8) \<Rightarrow>
          (case cast_w_to_float8 ext self1 (weight self1) (is_amax_initialized self1) of
             (self2, Inl e) \<Rightarrow> (self2, Inl e)
           | (self2, Inr w_fp8) \<Rightarrow>
               (case tensor_t ext w_fp8 of
                  Inl e \<Rightarrow> (self2, Inl e)
                | Inr w_t \<Rightarrow>
                    (case matmul ext x_fp8 w_t of
                       Inl e \<Rightarrow> (self2, Inl e)
                     | Inr y0 \<Rightarrow>
                         (case cast_y_to_float8_in_bw ext self2 y0 of
                            Inl e \<Rightarrow> (self2, Inl e)
                          | Inr (y1, ctx) \<Rightarrow>
                              (case bias self2 of
                                 None \<Rightarrow> (self2, Inr y1)
                               | Some b \<Rightarrow>
                                   (self2, tensor_add ext y1
                                             (tensor_to ext b (dtype_of y1)))))))))"

definition forward :: "externals \<Rightarrow> Float8Linear \<Rightarrow> tensor \<Rightarrow> Float8Linear \<times> (error + tensor)" where
  "forward ext self input =
     (case (if has_any_delayed_scaling self then float8_pre_forward ext self input
            else (self, Inr ())) of
        (self0, Inl e) \<Rightarrow> (self0, Inl e)
      | (self0, Inr u) \<Rightarrow>
          (case forward_compute ext self0 input of
             (self2, Inl e) \<Rightarrow> (self2, Inl e)
           | (self2, Inr y) \<Rightarrow>
               (if has_any_delayed_scaling self2 then (float8_post_forward self2, Inr y)
                else (self2, Inr y))))"

section \<open>Observers used in the statements\<close>

text \<open>
  The invariant of a \<open>Float8Tensor\<close>: its scale has exactly one element. For a
  \<open>DTensor\<close> it is read on the local tensor; a plain tensor has no scale.
\<close>

fun scale_has_one_element :: "tensor \<Rightarrow> bool" where
  "scale_has_one_element (Float8Tensor d s od c r) = (numel s = 1)"
| "scale_has_one_element (DTensor l m p sz) = scale_has_one_element l"
| "scale_has_one_element (Dense dt sh xs) = True"

text \<open>\<open>t.to_local()\<close>, and the fields \<open>_orig_dtype\<close> and \<open>_data\<close> of the tagged tensor
  that a result carries (the result itself, or the local tensor of a \<open>DTensor\<close>).\<close>

fun to_local :: "tensor \<Rightarrow> tensor" where
  "to_local (DTensor l m p sz) = l"
| "to_local t = t"

fun orig_dtype_of :: "tensor \<Rightarrow> dtype option" where
  "orig_dtype_of (Float8Tensor d s od c r) = Some od"
| "orig_dtype_of (DTensor l m p sz) = orig_dtype_of l"
| "orig_dtype_of (Dense dt sh xs) = None"

fun data_of :: "tensor \<Rightarrow> tensor option" where
  "data_of (Float8Tensor d s od c r) = Some d"
| "data_of (DTensor l m p sz) = data_of l"
| "data_of (Dense dt sh xs) = None"

section \<open>A reference instance of the external operations\<close>

text \<open>
  The theorems below hold for every value of the external operations. To run the model
  on concrete tensors, this instance computes on the reals: the product and the
  quotient by a one-element tensor, saturation as a clamp to the range of the format,
  the amax as the largest absolute value, the scale of a history as the format's maximum
  over the largest amax of the history, the transpose of a matrix, and the product of
  two matrices on their values in original precision; as torch does, the product
  refuses operands that are not matrices or whose inner sizes differ. It does not round,
  so the examples below use only values that the formats involved represent exactly
  (powers of two, 224 and 448 in e4m3, 28672 and 57344 in e5m2).
\<close>

fun elems_of :: "tensor \<Rightarrow> real list" where
  "elems_of (Dense dt sh xs) = xs"
| "elems_of (Float8Tensor d s od c r) = elems_of d"
| "elems_of (DTensor l m p sz) = elems_of l"

fun map_elems :: "(real \<Rightarrow> real) \<Rightarrow> tensor \<Rightarrow> tensor" where
  "map_elems f (Dense dt sh xs) = Dense dt sh (map f xs)"
| "map_elems f (Float8Tensor d s od c r) = Float8Tensor (map_elems f d) s od c r"
| "map_elems f (DTensor l m p sz) = DTensor (map_elems f l) m p sz"

fun with_dtype :: "dtype \<Rightarrow> tensor \<Rightarrow> tensor" where
  "with_dtype dt' (Dense dt sh xs) = Dense dt' sh xs"
| "with_dtype dt' (Float8Tensor d s od c r) = Float8Tensor d s dt' c r"
| "with_dtype dt' (DTensor l m p sz) = DTensor (with_dtype dt' l) m p sz"

definition item :: "tensor \<Rightarrow> real" where
  "item t = (case elems_of t of [] \<Rightarrow> 0 | v # vs \<Rightarrow> v)"

definition ref_amax :: "tensor \<Rightarrow> real" where
  "ref_amax t = fold max (map abs (elems_of t)) 0"

definition ref_saturated :: "tensor \<Rightarrow> dtype \<Rightarrow> tensor" where
  "ref_saturated t dt =
     with_dtype dt (map_elems (\<lambda>x. max (- finfo_max dt) (min (finfo_max dt) x)) t)"

definition ref_to_fp8 ::
  "tensor \<Rightarrow> tensor \<Rightarrow> dtype \<Rightarrow> LinearMMConfig \<Rightarrow> GemmInputRole \<Rightarrow> error + tensor"
where
  "ref_to_fp8 t s dt c r =
     Float8Tensor_new (ref_saturated (map_elems (\<lambda>x. x * item s) t) dt) s (dtype_of t)
       (Some c) (Some r)"

definition ref_dequantized :: "tensor \<Rightarrow> real list" where
  "ref_dequantized t =
     (case t of
        Float8Tensor d s od c r \<Rightarrow> map (\<lambda>x. x / item s) (elems_of d)
      | _ \<Rightarrow> elems_of t)"

text \<open>The transpose \<open>t.t()\<close>: of a matrix in row-major order; a tensor of fewer than
  two dimensions is its own transpose, one of more than two is refused.\<close>

fun ref_t_plain :: "tensor \<Rightarrow> error + tensor" where
  "ref_t_plain (Dense dt [] xs) = Inr (Dense dt [] xs)"
| "ref_t_plain (Dense dt [n] xs) = Inr (Dense dt [n] xs)"
| "ref_t_plain (Dense dt [r, c] xs) =
     Inr (Dense dt [c, r] (concat (map (\<lambda>j. map (\<lambda>i. xs ! (i * c + j)) [0..<r]) [0..<c])))"
| "ref_t_plain t = Inl (RuntimeError ''t() expects a tensor with <= 2 dimensions'')"

fun ref_t :: "tensor \<Rightarrow> error + tensor" where
  "ref_t (Float8Tensor d s od c r) =
     (case ref_t_plain d of Inl e \<Rightarrow> Inl e | Inr d' \<Rightarrow> Inr (Float8Tensor d' s od c r))"
| "ref_t t = ref_t_plain t"

text \<open>The product of an (m, k) matrix and a (k, n) matrix.\<close>

definition ref_matmul :: "tensor \<Rightarrow> tensor \<Rightarrow> error + tensor" where
  "ref_matmul a b =
     (case size_of a of
        [m, k] \<Rightarrow>
          (case size_of b of
             [k', n] \<Rightarrow>
               (if k = k' then
                  Inr (Dense (dtype_of a) [m, n]
                    (concat (map (\<lambda>i. map (\<lambda>j.
                       sum_list (map (\<lambda>l. ref_dequantized a ! (i * k + l)
                                          * ref_dequantized b ! (l * n + j)) [0..<k]))
                       [0..<n]) [0..<m])))
                else Inl (RuntimeError ''mat1 and mat2 shapes cannot be multiplied''))
           | _ \<Rightarrow> Inl (NotImplementedError ''aten.matmul''))
      | _ \<Rightarrow> Inl (NotImplementedError ''aten.matmul''))"

definition ref_ext :: externals where
  "ref_ext =
     \<lparr>tensor_mul = (\<lambda>a b. map_elems (\<lambda>x. x * item b) a),
      tensor_div = (\<lambda>a b. map_elems (\<lambda>x. x / item b) a),
      tensor_to = (\<lambda>t dt. with_dtype dt t),
      tensor_add = (\<lambda>a b. Inr (Dense (dtype_of a) (size_of a)
                       (map (\<lambda>(x, y). x + y) (zip (elems_of a) (elems_of b))))),
      tensor_t = ref_t,
      matmul = ref_matmul,
      is_grad_enabled = True,
      is_autocast_enabled = False,
      get_autocast_gpu_dtype = float16,
      to_fp8_saturated = ref_saturated,
      tensor_to_amax = (\<lambda>t reduce_amax. ref_amax t),
      amax_history_to_scale = (\<lambda>h float8_dtype orig_dtype name.
         if name = ''max'' then Inr (finfo_max float8_dtype / max (ref_amax h) (1 / 10 ^ 12))
         else Inl (NotImplementedError [])),
      cast_to_float8_e4m3_dynamic = (\<lambda>t c r.
         ref_to_fp8 t (Dense float32 [] [finfo_max e4m3_dtype / max (ref_amax t) (1 / 10 ^ 12)])
           e4m3_dtype c (case r of None \<Rightarrow> INPUT | Some r' \<Rightarrow> r')),
      cast_to_float8_e5m2_dynamic_bw = (\<lambda>t c. Inr t)\<rparr>"

subsection \<open>An example layer\<close>

text \<open>
  A layer with dynamic scaling of the input and delayed scaling of the weight and of the
  gradient of the output, a history of length 2 and the scale function \<open>max\<close>; its
  weight is already a \<open>Float8Tensor\<close>, as after the all-gather of FSDP. The two
  arguments are \<open>enable_amax_init\<close> and \<open>enable_pre_and_post_forward\<close>.
\<close>

definition example_config :: "bool \<Rightarrow> bool \<Rightarrow> Float8LinearConfig" where
  "example_config amax_init hooks =
     \<lparr>cast_config_input = \<lparr>scaling_type = DYNAMIC\<rparr>,
      cast_config_weight = \<lparr>scaling_type = DELAYED\<rparr>,
      cast_config_grad_output = \<lparr>scaling_type = DELAYED\<rparr>,
      gemm_config_output = \<lparr>use_fast_accum' = True\<rparr>,
      gemm_config_grad_input = \<lparr>use_fast_accum' = False\<rparr>,
      gemm_config_grad_weight = \<lparr>use_fast_accum' = False\<rparr>,
      enable_fsdp_float8_all_gather = True,
      pad_inner_dim' = False,
      emulate' = False,
      enable_amax_init = amax_init,
      enable_pre_and_post_forward' = hooks,
      delayed_scaling_config = \<lparr>history_len = 2, scale_fn_name' = ''max''\<rparr>\<rparr>"

definition example_weight :: tensor where
  "example_weight =
     Float8Tensor (Dense float8_e4m3fn [2] [224, 448]) (Dense float32 [1] [448]) float32
       LinearMMConfig_default (Some WEIGHT)"

definition example_layer :: "bool \<Rightarrow> bool \<Rightarrow> Float8Linear" where
  "example_layer amax_init hooks =
     Float8Linear_init (example_config amax_init hooks) example_weight None"

definition example_input :: tensor where
  "example_input = Dense float32 [2] [1, 2]"

subsection \<open>An example layer with delayed scaling of all three roles\<close>

text \<open>
  A layer of one output feature and two input features with delayed scaling of the
  input, of the weight and of the gradient of the output, a history of length 2 and the
  scale function \<open>max\<close>; its weight is the plain matrix (1/2, 1), it has no bias. The
  two arguments are \<open>enable_amax_init\<close> and \<open>enable_pre_and_post_forward\<close>.
\<close>

definition delayed_config :: "bool \<Rightarrow> bool \<Rightarrow> Float8LinearConfig" where
  "delayed_config amax_init hooks =
     \<lparr>cast_config_input = \<lparr>scaling_type = DELAYED\<rparr>,
      cast_config_weight = \<lparr>scaling_type = DELAYED\<rparr>,
      cast_config_grad_output = \<lparr>scaling_type = DELAYED\<rparr>,
      gemm_config_output = \<lparr>use_fast_accum' = True\<rparr>,
      gemm_config_grad_input = \<lparr>use_fast_accum' = False\<rparr>,
      gemm_config_grad_weight = \<lparr>use_fast_accum' = False\<rparr>,
      enable_fsdp_float8_all_gather = False,
      pad_inner_dim' = False,
      emulate' = False,
      enable_amax_init = amax_init,
      enable_pre_and_post_forward' = hooks,
      delayed_scaling_config = \<lparr>history_len = 2, scale_fn_name' = ''max''\<rparr>\<rparr>"

definition delayed_weight :: tensor where
  "delayed_weight = Dense float32 [1, 2] [1 / 2, 1]"

definition delayed_layer :: "bool \<Rightarrow> bool \<Rightarrow> Float8Linear" where
  "delayed_layer amax_init hooks =
     Float8Linear_init (delayed_config amax_init hooks) delayed_weight None"

text \<open>A batch of one input, (1, 2).\<close>

definition delayed_input :: tensor where
  "delayed_input = Dense float32 [1, 2] [1, 2]"

text \<open>
  The buffers of the layer after a forward pass on that input. With
  \<open>is_amax_initialized\<close> false at the start of the pass, the initialization has written
  the amax, the history and the scale of the input and of the weight; with it true, the
  casts have recorded the two amaxes only.
\<close>

definition delayed_buffers_after :: "bool \<Rightarrow> store" where
  "delayed_buffers_after amax_init =
     (if amax_init then
        (buffers (delayed_layer True True))
          (''fp8_amax_input'' \<mapsto> Dense float32 [1] [2],
           ''fp8_amax_history_input'' \<mapsto> Dense float32 [2] [2, 0],
           ''fp8_scale_input'' \<mapsto> Dense float32 [1] [224],
           ''fp8_amax_weight'' \<mapsto> Dense float32 [1] [1],
           ''fp8_amax_history_weight'' \<mapsto> Dense float32 [2] [1, 0],
           ''fp8_scale_weight'' \<mapsto> Dense float32 [1] [448])
      else
        (buffers (delayed_layer False False))
          (''fp8_amax_input'' \<mapsto> Dense float32 [1] [2],
           ''fp8_amax_weight'' \<mapsto> Dense float32 [1] [1]))"

text \<open>The layer with the hooks on after its first forward pass, and the layer with the
  hooks off after any forward pass.\<close>

definition delayed_layer_after :: Float8Linear where
  "delayed_layer_after =
     (delayed_layer True True)\<lparr>last_seen_input_dtype := Some float32,
        buffers := delayed_buffers_after True,
        is_amax_initialized := True, amax_and_scale_synced := False\<rparr>"

definition delayed_layer_hooks_off_after :: Float8Linear where
  "delayed_layer_hooks_off_after =
     (delayed_layer False False)\<lparr>buffers := delayed_buffers_after False\<rparr>"

text \<open>The context that the first forward pass of the layer leaves for the backward pass
  of the gradient of the output, and a gradient of the output, (1, -2).\<close>

definition delayed_ctx :: noop_ctx where
  "delayed_ctx =
     \<lparr>ctx_saved_tensors =
        (''fp8_amax_grad_output'', ''fp8_amax_history_grad_output'', ''fp8_scale_grad_output''),
      ctx_scale_fn_name = ''max'',
      ctx_is_amax_initialized = False,
      ctx_linear_mm_config = linear_mm_config (delayed_layer True True)\<rparr>"

definition delayed_grad_output :: tensor where
  "delayed_grad_output = Dense float32 [1, 1] [- 2]"

section \<open>Role pairs and the configuration of a gemm\<close>

text \<open>
  C3. The role pairs (INPUT, WEIGHT), (GRAD\_OUTPUT, WEIGHT) and (GRAD\_OUTPUT, INPUT)
  select the \<open>output\<close>, the \<open>grad_input\<close> and the \<open>grad_weight\<close> entry: that entry
  of the two operands is compared and, when they agree, returned; the diagnostic of a
  disagreement names the same entry. Every other ordered pair of roles raises the
  \<open>AssertionError\<close> for unexpected roles, whatever the configurations.
\<close>

theorem choose_scaled_mm_config_roles:
  "choose_scaled_mm_config INPUT a WEIGHT b =
     (if output' a = output' b then Inr (output' a)
      else Inl (AssertionError (mismatch_message ''output'' (output' a) (output' b))))
   \<and> choose_scaled_mm_config GRAD_OUTPUT a WEIGHT b =
     (if grad_input a = grad_input b then Inr (grad_input a)
      else Inl (AssertionError (mismatch_message ''grad_input'' (grad_input a) (grad_input b))))
   \<and> choose_scaled_mm_config GRAD_OUTPUT a INPUT b =
     (if grad_weight a = grad_weight b then Inr (grad_weight a)
      else Inl (AssertionError (mismatch_message ''grad_weight'' (grad_weight a) (grad_weight b))))
   \<and> ((a_role, b_role) \<notin> {(INPUT, WEIGHT), (GRAD_OUTPUT, WEIGHT), (GRAD_OUTPUT, INPUT)} \<longrightarrow>
        choose_scaled_mm_config a_role a b_role b =
          Inl (AssertionError (unexpected_roles_message a_role b_role)))"
proof (intro conjI impI)
  show "choose_scaled_mm_config INPUT a WEIGHT b =
     (if output' a = output' b then Inr (output' a)
      else Inl (AssertionError (mismatch_message ''output'' (output' a) (output' b))))"
    by (simp add: choose_scaled_mm_config_def)
next
  show "choose_scaled_mm_config GRAD_OUTPUT a WEIGHT b =
     (if grad_input a = grad_input b then Inr (grad_input a)
      else Inl (AssertionError (mismatch_message ''grad_input'' (grad_input a) (grad_input b))))"
    by (simp add: choose_scaled_mm_config_def)
next
  show "choose_scaled_mm_config GRAD_OUTPUT a INPUT b =
     (if grad_weight a = grad_weight b then Inr (grad_weight a)
      else Inl (AssertionError (mismatch_message ''grad_weight'' (grad_weight a) (grad_weight b))))"
    by (simp add: choose_scaled_mm_config_def)
next
  assume other: "(a_role, b_role) \<notin> {(INPUT, WEIGHT), (GRAD_OUTPUT, WEIGHT), (GRAD_OUTPUT, INPUT)}"
  then show "choose_scaled_mm_config a_role a b_role b =
          Inl (AssertionError (unexpected_roles_message a_role b_role))"
    by (cases a_role; cases b_role) (simp_all add: choose_scaled_mm_config_def)
qed

text \<open>
  Witness of C3: with the default configuration on both sides the three pairs return
  the three entries, and the pair (INPUT, INPUT), which is none of them, raises.
\<close>

theorem choose_scaled_mm_config_roles_witness:
  "choose_scaled_mm_config INPUT LinearMMConfig_default WEIGHT LinearMMConfig_default =
     Inr (output' LinearMMConfig_default)
   \<and> choose_scaled_mm_config GRAD_OUTPUT LinearMMConfig_default WEIGHT LinearMMConfig_default =
     Inr (grad_input LinearMMConfig_default)
   \<and> choose_scaled_mm_config GRAD_OUTPUT LinearMMConfig_default INPUT LinearMMConfig_default =
     Inr (grad_weight LinearMMConfig_default)
   \<and> (INPUT, INPUT) \<notin> {(INPUT, WEIGHT), (GRAD_OUTPUT, WEIGHT), (GRAD_OUTPUT, INPUT)}
   \<and> choose_scaled_mm_config INPUT LinearMMConfig_default INPUT LinearMMConfig_default =
     Inl (AssertionError
       ''unexpected a_role GemmInputRole.INPUT and b_role GemmInputRole.INPUT'')"
  using choose_scaled_mm_config_roles
          [of LinearMMConfig_default LinearMMConfig_default INPUT INPUT]
  by (simp add: unexpected_roles_message_def)

text \<open>
  C6. For each of the three role pairs that select a gemm: when the two operands' entries
  for that gemm differ, the resolution raises an \<open>AssertionError\<close> that names the gemm
  and both entries, and so returns neither side's entry; when they agree, it returns the
  entry, which is that of both sides.
\<close>

theorem choose_scaled_mm_config_mismatch:
  "(output' a \<noteq> output' b \<longrightarrow>
      choose_scaled_mm_config INPUT a WEIGHT b =
        Inl (AssertionError (mismatch_message ''output'' (output' a) (output' b))))
   \<and> (output' a = output' b \<longrightarrow>
      choose_scaled_mm_config INPUT a WEIGHT b = Inr (output' a)
      \<and> choose_scaled_mm_config INPUT a WEIGHT b = Inr (output' b))
   \<and> (grad_input a \<noteq> grad_input b \<longrightarrow>
      choose_scaled_mm_config GRAD_OUTPUT a WEIGHT b =
        Inl (AssertionError (mismatch_message ''grad_input'' (grad_input a) (grad_input b))))
   \<and> (grad_input a = grad_input b \<longrightarrow>
      choose_scaled_mm_config GRAD_OUTPUT a WEIGHT b = Inr (grad_input a)
      \<and> choose_scaled_mm_config GRAD_OUTPUT a WEIGHT b = Inr (grad_input b))
   \<and> (grad_weight a \<noteq> grad_weight b \<longrightarrow>
      choose_scaled_mm_config GRAD_OUTPUT a INPUT b =
        Inl (AssertionError (mismatch_message ''grad_weight'' (grad_weight a) (grad_weight b))))
   \<and> (grad_weight a = grad_weight b \<longrightarrow>
      choose_scaled_mm_config GRAD_OUTPUT a INPUT b = Inr (grad_weight a)
      \<and> choose_scaled_mm_config GRAD_OUTPUT a INPUT b = Inr (grad_weight b))"
  by (simp add: choose_scaled_mm_config_def)

text \<open>
  Witness of C6: the default configuration against one that differs from it in the
  \<open>output\<close> entry only. The output gemm raises, the grad\_input gemm returns the
  shared entry.
\<close>

theorem choose_scaled_mm_config_mismatch_witness:
  "output' LinearMMConfig_default \<noteq> output' (LinearMMConfig_default\<lparr>output' := ScaledMMConfig_default\<rparr>)
   \<and> choose_scaled_mm_config INPUT LinearMMConfig_default
        WEIGHT (LinearMMConfig_default\<lparr>output' := ScaledMMConfig_default\<rparr>) =
      Inl (AssertionError (mismatch_message ''output''
             (output' LinearMMConfig_default) ScaledMMConfig_default))
   \<and> grad_input LinearMMConfig_default =
        grad_input (LinearMMConfig_default\<lparr>output' := ScaledMMConfig_default\<rparr>)
   \<and> choose_scaled_mm_config GRAD_OUTPUT LinearMMConfig_default
        WEIGHT (LinearMMConfig_default\<lparr>output' := ScaledMMConfig_default\<rparr>) =
      Inr ScaledMMConfig_default"
  using choose_scaled_mm_config_mismatch
          [of LinearMMConfig_default "LinearMMConfig_default\<lparr>output' := ScaledMMConfig_default\<rparr>"]
  by (simp add: LinearMMConfig_default_def ScaledMMConfig_default_def)

section \<open>Construction of a Float8Tensor\<close>

lemma Float8Tensor_new_Inr:
  "Float8Tensor_new d s od cfg role = Inr t \<Longrightarrow>
     numel s = 1 \<and>
     t = Float8Tensor d s od (case cfg of Some c \<Rightarrow> c | None \<Rightarrow> LinearMMConfig_default) role"
  by (auto simp: Float8Tensor_new_def split: if_splits)

lemma ToFloat8ConstrFunc_forward_Inr:
  assumes "ToFloat8ConstrFunc_forward ext x s dt cfg role = Inr t"
  shows "scale_has_one_element t \<and> orig_dtype_of t = Some (dtype_of x)
         \<and> data_of t = Some (to_local (to_fp8_saturated ext (tensor_mul ext x s) dt))"
  using assms
  by (auto simp: ToFloat8ConstrFunc_forward_def Let_def
           split: tensor.splits sum.splits dest!: Float8Tensor_new_Inr)

text \<open>
  C7. Constructing a \<open>Float8Tensor\<close> with a scale whose number of elements is not 1
  raises an \<open>AssertionError\<close> at once; every tensor that \<open>Float8Tensor.__new__\<close>,
  \<open>__tensor_unflatten__\<close>, \<open>_ToFloat8ConstrFunc.forward\<close> and
  \<open>hp_tensor_and_scale_to_float8\<close> return has a scale of exactly one element.
\<close>

theorem Float8Tensor_scale_single_element:
  "(numel scale \<noteq> 1 \<longrightarrow>
      Float8Tensor_new data scale od cfg role =
        Inl (AssertionError (scale_numel_message (numel scale))))
   \<and> (\<forall>t. Float8Tensor_new data scale od cfg role = Inr t \<longrightarrow> scale_has_one_element t)
   \<and> (\<forall>t. tensor_unflatten inner_tensors metadata = Inr t \<longrightarrow> scale_has_one_element t)
   \<and> (\<forall>t. ToFloat8ConstrFunc_forward ext x scale dt cfg role = Inr t \<longrightarrow>
          scale_has_one_element t)
   \<and> (\<forall>t. hp_tensor_and_scale_to_float8 ext x scale dt cfg role = Inr t \<longrightarrow>
          scale_has_one_element t)"
proof (intro conjI allI impI)
  assume "numel scale \<noteq> 1"
  then show "Float8Tensor_new data scale od cfg role =
        Inl (AssertionError (scale_numel_message (numel scale)))"
    by (simp add: Float8Tensor_new_def)
next
  fix t assume "Float8Tensor_new data scale od cfg role = Inr t"
  then show "scale_has_one_element t"
    by (auto dest: Float8Tensor_new_Inr)
next
  fix t assume "tensor_unflatten inner_tensors metadata = Inr t"
  then show "scale_has_one_element t"
    by (auto simp: tensor_unflatten_def split: if_splits option.splits
          dest: Float8Tensor_new_Inr)
next
  fix t assume "ToFloat8ConstrFunc_forward ext x scale dt cfg role = Inr t"
  then show "scale_has_one_element t"
    by (simp add: ToFloat8ConstrFunc_forward_Inr)
next
  fix t assume "hp_tensor_and_scale_to_float8 ext x scale dt cfg role = Inr t"
  then show "scale_has_one_element t"
    by (simp add: hp_tensor_and_scale_to_float8_def ToFloat8ConstrFunc_forward_Inr)
qed

text \<open>
  Witness of C7: a scale of two elements is refused with the count in the message, a
  scale of one element is accepted and the tensor built has the invariant.
\<close>

theorem Float8Tensor_scale_single_element_witness:
  "numel (Dense float32 [2] [1, 2]) \<noteq> 1
   \<and> Float8Tensor_new (Dense float8_e4m3fn [1] [3]) (Dense float32 [2] [1, 2]) float32
        None (Some INPUT)
       = Inl (AssertionError ''Scale should contain a single value, but got: 2 elements'')
   \<and> Float8Tensor_new (Dense float8_e4m3fn [1] [3]) (Dense float32 [1] [2]) float32
        None (Some INPUT)
       = Inr (Float8Tensor (Dense float8_e4m3fn [1] [3]) (Dense float32 [1] [2]) float32
               LinearMMConfig_default (Some INPUT))
   \<and> scale_has_one_element
        (Float8Tensor (Dense float8_e4m3fn [1] [3]) (Dense float32 [1] [2]) float32
               LinearMMConfig_default (Some INPUT))"
  using Float8Tensor_scale_single_element
          [of "Dense float32 [2] [1, 2]" "Dense float8_e4m3fn [1] [3]" float32 None "Some INPUT"
              "[]" "\<lparr>md_orig_dtype = float32, md_linear_mm_config = LinearMMConfig_default,
                      md_gemm_input_role = None\<rparr>"
              ref_ext "Dense float32 [1] [3]" float8_e4m3fn]
        Float8Tensor_scale_single_element
          [of "Dense float32 [1] [2]" "Dense float8_e4m3fn [1] [3]" float32 None "Some INPUT"
              "[]" "\<lparr>md_orig_dtype = float32, md_linear_mm_config = LinearMMConfig_default,
                      md_gemm_input_role = None\<rparr>"
              ref_ext "Dense float32 [1] [3]" float8_e4m3fn]
  by (simp add: numel_def scale_numel_message_def str_nat.simps Float8Tensor_new_def)



text \<open>
  C8. The conversion of a tagged tensor back to high precision is the quotient of its
  data converted to \<open>_orig_dtype\<close> by its scale converted to \<open>_orig_dtype\<close>: a
  function of the stored data and scale only. This holds for every tagged tensor, and
  so for every one that the constructor returns.
\<close>

theorem to_original_precision_quotient:
  "to_original_precision ext (Float8Tensor d s od c r) =
     Inr (tensor_div ext (tensor_to ext d od) (tensor_to ext s od))
   \<and> (\<forall>t. Float8Tensor_new d s od cfg role = Inr t \<longrightarrow>
         to_original_precision ext t =
           Inr (tensor_div ext (tensor_to ext d od) (tensor_to ext s od)))"
  by (auto simp: to_original_precision_def dest: Float8Tensor_new_Inr)

text \<open>
  Witness of C8, on the reference instance: the tensor built in the witness of C4
  converts back to (1, 224), the stored bits over the scale, and not to the tensor
  (1, 300) it was cast from.
\<close>

theorem to_original_precision_quotient_witness:
  "Float8Tensor_new (Dense float8_e4m3fn [2] [2, 448]) (Dense float32 [] [2]) float32
      None (Some INPUT)
     = Inr (Float8Tensor (Dense float8_e4m3fn [2] [2, 448]) (Dense float32 [] [2]) float32
              LinearMMConfig_default (Some INPUT))
   \<and> to_original_precision ref_ext
       (Float8Tensor (Dense float8_e4m3fn [2] [2, 448]) (Dense float32 [] [2]) float32
              LinearMMConfig_default (Some INPUT))
     = Inr (Dense float32 [2] [1, 224])"
  using to_original_precision_quotient
          [of ref_ext "Dense float8_e4m3fn [2] [2, 448]" "Dense float32 [] [2]" float32
              LinearMMConfig_default "Some INPUT" None "Some INPUT"]
  by (simp add: Float8Tensor_new_def numel_def ref_ext_def item_def)

section \<open>The amax and scale buffers\<close>

lemmas example_defs = example_layer_def example_config_def Float8Linear_init_def
  create_buffers_def register_always_float32_buffer_def example_weight_def example_input_def

lemmas ref_defs = ref_ext_def ref_to_fp8_def ref_saturated_def ref_amax_def
  ref_dequantized_def item_def e4m3_dtype_def e5m2_dtype_def

text \<open>
  C5. With \<open>is_initialized\<close> true, the initialization returns at once: the store of
  buffers that it returns is the store it was given, so \<open>current_amax\<close>,
  \<open>amax_history\<close> and \<open>scale\<close> (and every other buffer) are unchanged, for every
  tensor, every format and every behaviour of the external operations.
\<close>

theorem maybe_initialize_initialized_noop:
  "maybe_initialize_amaxes_scales_for_float8_cast ext x cur_amax amax_history scale
     scale_fn_name float8_dtype True reduce_amax st = (st, Inr ())"
  by (simp add: maybe_initialize_amaxes_scales_for_float8_cast_def)

text \<open>
  Witness of C5: on the buffers of the example layer, whose amax of the input is the
  default 448, the initialization with \<open>is_initialized\<close> true returns the same buffers.
\<close>

theorem maybe_initialize_initialized_noop_witness:
  "maybe_initialize_amaxes_scales_for_float8_cast ref_ext example_input
     ''fp8_amax_input'' ''fp8_amax_history_input'' ''fp8_scale_input'' ''max'' e4m3_dtype
     True True (buffers (example_layer False True)) = (buffers (example_layer False True), Inr ())
   \<and> buffers (example_layer False True) ''fp8_amax_input'' = Some (Dense float32 [1] [448])"
  using maybe_initialize_initialized_noop
          [of ref_ext example_input "''fp8_amax_input''" "''fp8_amax_history_input''"
              "''fp8_scale_input''" "''max''" e4m3_dtype True "buffers (example_layer False True)"]
  by (simp add: example_defs)

lemma create_buffers_lookup:
  assumes "has_any_delayed_scaling self"
  shows "buffers (create_buffers self) ''fp8_amax_input'' =
           Some (Dense float32 [1] [finfo_max float8_e4m3fn])"
    and "buffers (create_buffers self) ''fp8_amax_weight'' =
           Some (Dense float32 [1] [finfo_max float8_e4m3fn])"
    and "buffers (create_buffers self) ''fp8_amax_grad_output'' =
           Some (Dense float32 [1] [finfo_max float8_e5m2])"
    and "buffers (create_buffers self) ''fp8_scale_input'' = Some (Dense float32 [1] [1])"
    and "buffers (create_buffers self) ''fp8_scale_weight'' = Some (Dense float32 [1] [1])"
    and "buffers (create_buffers self) ''fp8_scale_grad_output'' = Some (Dense float32 [1] [1])"
  using assms
  by (simp_all add: create_buffers_def register_always_float32_buffer_def Let_def)

lemma Float8Linear_init_unfold:
  "\<exists>l. Float8Linear_init cfg w b = create_buffers l \<and>
     has_any_delayed_scaling l =
       (scaling_type (cast_config_input cfg) = DELAYED
        \<or> scaling_type (cast_config_weight cfg) = DELAYED
        \<or> scaling_type (cast_config_grad_output cfg) = DELAYED)"
  unfolding Float8Linear_init_def by (rule exI, rule conjI, rule refl) simp

text \<open>
  C9. A layer constructed with delayed scaling on any of the three roles has, for each
  role, an amax buffer of one element holding the largest finite value of the format of
  that role's cast (\<open>torch.float8_e4m3fn\<close>, which is \<open>e4m3_dtype\<close>, for the input and
  the weight: 448; \<open>torch.float8_e5m2\<close>, which is \<open>e5m2_dtype\<close>, for the gradient of
  the output: 57344) and a scale buffer of one element holding 1.
\<close>

theorem create_buffers_defaults:
  assumes "scaling_type (cast_config_input cfg) = DELAYED
           \<or> scaling_type (cast_config_weight cfg) = DELAYED
           \<or> scaling_type (cast_config_grad_output cfg) = DELAYED"
  shows "buffers (Float8Linear_init cfg w b) ''fp8_amax_input'' =
           Some (Dense float32 [1] [finfo_max e4m3_dtype])
    \<and> buffers (Float8Linear_init cfg w b) ''fp8_amax_weight'' =
           Some (Dense float32 [1] [finfo_max e4m3_dtype])
    \<and> buffers (Float8Linear_init cfg w b) ''fp8_amax_grad_output'' =
           Some (Dense float32 [1] [finfo_max e5m2_dtype])
    \<and> buffers (Float8Linear_init cfg w b) ''fp8_scale_input'' = Some (Dense float32 [1] [1])
    \<and> buffers (Float8Linear_init cfg w b) ''fp8_scale_weight'' = Some (Dense float32 [1] [1])
    \<and> buffers (Float8Linear_init cfg w b) ''fp8_scale_grad_output'' =
           Some (Dense float32 [1] [1])
    \<and> finfo_max e4m3_dtype = 448 \<and> finfo_max e5m2_dtype = 57344"
proof -
  obtain l where l: "Float8Linear_init cfg w b = create_buffers l" "has_any_delayed_scaling l"
    using Float8Linear_init_unfold [of cfg w b] assms by blast
  show ?thesis
    using create_buffers_lookup [OF l(2)]
    by (simp add: l(1) e4m3_dtype_def e5m2_dtype_def)
qed

text \<open>
  Witness of C9: the example layer has delayed scaling of the weight, and its buffers
  hold 448, 448, 57344 and 1.
\<close>

theorem create_buffers_defaults_witness:
  "scaling_type (cast_config_weight (example_config True True)) = DELAYED
   \<and> buffers (example_layer True True) ''fp8_amax_input'' = Some (Dense float32 [1] [448])
   \<and> buffers (example_layer True True) ''fp8_amax_weight'' = Some (Dense float32 [1] [448])
   \<and> buffers (example_layer True True) ''fp8_amax_grad_output'' =
        Some (Dense float32 [1] [57344])
   \<and> buffers (example_layer True True) ''fp8_scale_grad_output'' = Some (Dense float32 [1] [1])"
proof -
  have h: "scaling_type (cast_config_weight (example_config True True)) = DELAYED"
    by (simp add: example_config_def)
  then have "scaling_type (cast_config_input (example_config True True)) = DELAYED
           \<or> scaling_type (cast_config_weight (example_config True True)) = DELAYED
           \<or> scaling_type (cast_config_grad_output (example_config True True)) = DELAYED"
    by simp
  from create_buffers_defaults [OF this, of example_weight None] h show ?thesis
    by (simp add: example_layer_def)
qed

section \<open>The cast of the weight\<close>

text \<open>
  C10. When the weight of the layer is already a \<open>Float8Tensor\<close>, the cast of the
  weight returns that weight and the layer as it was, buffers included, under delayed
  and under dynamic scaling of the weight. The result is the same for every behaviour
  of the external operations: no amax is computed and no cast is made.
\<close>

theorem cast_w_to_float8_precast:
  "is_Float8Tensor (weight self) \<longrightarrow>
     (scaling_type_weight self = DELAYED \<longrightarrow>
        cast_w_to_float8 ext self w is_init = (self, Inr (weight self)))
     \<and> (scaling_type_weight self = DYNAMIC \<longrightarrow>
        cast_w_to_float8 ext self w is_init = (self, Inr (weight self)))
     \<and> cast_w_to_float8 ext self w is_init = (self, Inr (weight self))"
  by (simp add: cast_w_to_float8_def)

text \<open>
  Witness of C10: the example layer, whose weight is a \<open>Float8Tensor\<close> and whose weight
  scaling is delayed, before its buffers are initialized.
\<close>

theorem cast_w_to_float8_precast_witness:
  "is_Float8Tensor (weight (example_layer True True))
   \<and> scaling_type_weight (example_layer True True) = DELAYED
   \<and> cast_w_to_float8 ref_ext (example_layer True True) (weight (example_layer True True)) False
       = (example_layer True True, Inr example_weight)"
  using cast_w_to_float8_precast
          [of "example_layer True True" ref_ext "weight (example_layer True True)" False]
  by (simp add: example_defs)

end
